theory Spec2Isabelle
  imports Complex_Main
begin

section \<open>Best-Math: pages, insertion, preview, graph dialog and image scaling\<close>

text \<open>
  The development embeds \<^verbatim>\<open>src/bestmath.py\<close> (the paged editor with the graph and
  image dialogs) and the formula insertion of \<^verbatim>\<open>src/sourcecode.py\<close> (the single-editor
  variant). Widget state is explicit: a window is a record, every method is a function
  from the old record to the new one, and every exception the source can raise is the
  \<open>Inl\<close> branch of a sum.

  The toolkit itself (list widget, stacked widget, text cursor, image scaling) is not
  part of the repository. Its operations are written out as small functions named after
  the toolkit call they stand for, following the toolkit's documented behaviour; the
  text before each one says what is assumed. Strings are lists of 8-bit characters,
  x-values and sampled y-values are exact real numbers (binary rounding is not
  represented), and a text cursor is a single position (no selection).
\<close>

subsection \<open>Exceptions and strings\<close>

datatype pyexn = RuntimeError | AttributeError | ValueError | NameError | SyntaxError
  | OtherError string

text \<open>\<^verbatim>\<open>str.strip()\<close>: the white space of \<^verbatim>\<open>str.isspace\<close> among the first 256 code points.\<close>

definition is_space :: "char \<Rightarrow> bool" where
  "is_space c = (of_char c \<in> {9, 10, 11, 12, 13, 28, 29, 30, 31, 32, 133, 160 :: nat})"

definition strip :: "string \<Rightarrow> string" where
  "strip s = rev (dropWhile is_space (rev (dropWhile is_space s)))"

text \<open>The decimal digits of \<^verbatim>\<open>f"{index}"\<close> for a non-negative integer.\<close>

definition digit_char :: "nat \<Rightarrow> char" where
  "digit_char d =
     (if d = 0 then CHR ''0'' else if d = 1 then CHR ''1'' else if d = 2 then CHR ''2''
      else if d = 3 then CHR ''3'' else if d = 4 then CHR ''4'' else if d = 5 then CHR ''5''
      else if d = 6 then CHR ''6'' else if d = 7 then CHR ''7'' else if d = 8 then CHR ''8''
      else CHR ''9'')"

fun str_nat :: "nat \<Rightarrow> string" where
  "str_nat n = (if n < 10 then [digit_char n] else str_nat (n div 10) @ [digit_char (n mod 10)])"

declare str_nat.simps [simp del]

subsection \<open>Rich-text buffers\<close>

datatype alignment = AlignLeft | AlignCenter | AlignRight

text \<open>
  An image is known to the document only by its size and by where it came from (the
  formula, the graph or the file path); its pixels are opaque.
\<close>

record qimage =
  img_width :: int
  img_height :: int
  img_source :: string

datatype item = Chr char | Img qimage | Par

text \<open>
  A \<^verbatim>\<open>QTextEdit\<close>: the document as a sequence of characters, inline images and paragraph
  separators, the position of the text cursor, and one alignment per paragraph.
\<close>

record editor =
  buf :: "item list"
  cursor :: nat
  aligns :: "alignment list"
  font :: "string \<times> nat"

definition new_editor :: editor where
  "new_editor = \<lparr>buf = [], cursor = 0, aligns = [AlignLeft], font = (''Times New Roman'', 12)\<rparr>"

text \<open>
  The preview holds markup. \<^verbatim>\<open>toHtml\<close> is the toolkit's serialisation; it is written as
  a constructor applied to what it serialises (the document and its paragraph formats,
  not the cursor).
\<close>

datatype html = Literal string | Serialized "item list" "alignment list"

definition toHtml :: "editor \<Rightarrow> html" where
  "toHtml ed = Serialized (buf ed) (aligns ed)"

text \<open>
  \<^verbatim>\<open>cursor = editor.textCursor(); cursor.insertImage(image)\<close>: the image becomes one
  item at the cursor's position, and the toolkit moves every cursor standing at that
  position (the editor's own one too) behind the inserted item.
\<close>

definition insertImage :: "qimage \<Rightarrow> editor \<Rightarrow> editor" where
  "insertImage im ed =
     ed\<lparr>buf := take (cursor ed) (buf ed) @ [Img im] @ drop (cursor ed) (buf ed),
        cursor := min (cursor ed) (length (buf ed)) + 1\<rparr>"

text \<open>The number of the paragraph that holds the cursor, and \<^verbatim>\<open>cursor.setBlockFormat\<close>.\<close>

definition block_number :: "editor \<Rightarrow> nat" where
  "block_number ed = length (filter (\<lambda>i. i = Par) (take (cursor ed) (buf ed)))"

definition setBlockAlignment :: "alignment \<Rightarrow> editor \<Rightarrow> editor" where
  "setBlockAlignment a ed = ed\<lparr>aligns := (aligns ed)[block_number ed := a]\<rparr>"

subsection \<open>The window: page list, page stack, preview\<close>

record language_strings =
  lang_insert_latex :: string
  lang_insert_image :: string
  lang_latex_error :: string
  lang_diagram_title :: string

definition english :: language_strings where
  "english = \<lparr>lang_insert_latex = ''Insert LaTeX'', lang_insert_image = ''Insert Image'',
     lang_latex_error = ''Unable to render LaTeX formula.'',
     lang_diagram_title = ''Graphing Canvas''\<rparr>"

text \<open>
  \<^verbatim>\<open>PagesPanel\<close> and the part of \<^verbatim>\<open>MainWindow\<close> the operations touch. \<open>page_list\<close>
  holds the item texts of the list widget and \<open>list_row\<close> its current row (\<open>-1\<close> when
  there is none); \<open>page_stack\<close> holds the editors of the stacked widget and
  \<open>stack_index\<close> its current index. \<open>preview_connected\<close> says whether
  \<^verbatim>\<open>page_stack.currentChanged\<close> is connected to \<^verbatim>\<open>_update_preview\<close>. A message box is
  recorded as its title and its body.
\<close>

record window =
  page_list :: "string list"
  list_row :: int
  page_stack :: "editor list"
  stack_index :: int
  preview_connected :: bool
  preview :: html
  notifications :: "(string \<times> string) list"
  language :: language_strings

definition remove_nth :: "nat \<Rightarrow> 'a list \<Rightarrow> 'a list" where
  "remove_nth n xs = take n xs @ drop (Suc n) xs"

definition warning :: "string \<Rightarrow> string \<Rightarrow> window \<Rightarrow> window" where
  "warning title body w = w\<lparr>notifications := notifications w @ [(title, body)]\<rparr>"

text \<open>
  \<^verbatim>\<open>PagesPanel.current_editor\<close>: the current widget of the stack, or \<^verbatim>\<open>RuntimeError\<close>
  when the stack has none.
\<close>

definition current_editor :: "window \<Rightarrow> pyexn + editor" where
  "current_editor w =
     (if 0 \<le> stack_index w \<and> stack_index w < int (length (page_stack w))
      then Inr (page_stack w ! nat (stack_index w))
      else Inl RuntimeError)"

definition set_current_editor :: "editor \<Rightarrow> window \<Rightarrow> window" where
  "set_current_editor ed w = w\<lparr>page_stack := (page_stack w)[nat (stack_index w) := ed]\<rparr>"

text \<open>\<^verbatim>\<open>MainWindow._update_preview\<close>.\<close>

definition update_preview :: "window \<Rightarrow> pyexn + window" where
  "update_preview w =
     (case current_editor w of
        Inl e \<Rightarrow> Inl e
      | Inr ed \<Rightarrow> Inr (w\<lparr>preview := toHtml ed\<rparr>))"

text \<open>The signal \<^verbatim>\<open>page_stack.currentChanged\<close> runs its slot at once.\<close>

definition currentChanged :: "window \<Rightarrow> pyexn + window" where
  "currentChanged w = (if preview_connected w then update_preview w else Inr w)"

text \<open>
  \<^verbatim>\<open>QStackedWidget.setCurrentIndex\<close>: an index without a widget, or the index that is
  current already, changes nothing and emits nothing.
\<close>

definition stack_setCurrentIndex :: "int \<Rightarrow> window \<Rightarrow> pyexn + window" where
  "stack_setCurrentIndex i w =
     (if 0 \<le> i \<and> i < int (length (page_stack w)) \<and> i \<noteq> stack_index w
      then currentChanged (w\<lparr>stack_index := i\<rparr>)
      else Inr w)"

text \<open>
  \<^verbatim>\<open>QStackedWidget.addWidget\<close>: the widget is appended; it becomes current only when
  the stack had no current widget.
\<close>

definition stack_addWidget :: "editor \<Rightarrow> window \<Rightarrow> pyexn + window" where
  "stack_addWidget ed w =
     (let w1 = w\<lparr>page_stack := page_stack w @ [ed]\<rparr>
      in if stack_index w < 0 then stack_setCurrentIndex (int (length (page_stack w))) w1
         else Inr w1)"

text \<open>
  \<^verbatim>\<open>widget = page_stack.widget(row); page_stack.removeWidget(widget); widget.deleteLater()\<close>.
  Without a widget at \<open>row\<close> the last call raises. Removing the current widget makes
  the widget that takes its place current (the one before it when it was the last);
  removing a widget before the current one shifts the current index down.
\<close>

definition stack_removeWidget :: "int \<Rightarrow> window \<Rightarrow> pyexn + window" where
  "stack_removeWidget row w =
     (if row < 0 \<or> int (length (page_stack w)) \<le> row then Inl AttributeError
      else
        let rest = remove_nth (nat row) (page_stack w);
            w1 = w\<lparr>page_stack := rest\<rparr>
        in if row = stack_index w then
             (if rest = [] then currentChanged (w1\<lparr>stack_index := - 1\<rparr>)
              else stack_setCurrentIndex
                     (if row = int (length rest) then row - 1 else row)
                     (w1\<lparr>stack_index := - 1\<rparr>))
           else if row < stack_index w then Inr (w1\<lparr>stack_index := stack_index w - 1\<rparr>)
           else Inr w1)"

text \<open>
  \<^verbatim>\<open>QListWidget.setCurrentRow\<close>, with its signal \<^verbatim>\<open>currentRowChanged\<close> connected to
  \<^verbatim>\<open>page_stack.setCurrentIndex\<close> (as \<^verbatim>\<open>PagesPanel.__init__\<close> does).
\<close>

definition list_setCurrentRow :: "int \<Rightarrow> window \<Rightarrow> pyexn + window" where
  "list_setCurrentRow r w =
     (let r' = (if 0 \<le> r \<and> r < int (length (page_list w)) then r else - 1)
      in if r' = list_row w then Inr w
         else stack_setCurrentIndex r' (w\<lparr>list_row := r'\<rparr>))"

text \<open>
  \<^verbatim>\<open>QListWidget.takeItem\<close>. When the current item is taken, the view first makes the
  next item current (the previous one when there is no next), emitting
  \<^verbatim>\<open>currentRowChanged\<close> with that item's row as it is before the removal; then the item
  goes and the rows behind it move up.
\<close>

definition list_takeItem :: "int \<Rightarrow> window \<Rightarrow> pyexn + window" where
  "list_takeItem row w =
     (let n = int (length (page_list w)) in
      if row < 0 \<or> n \<le> row then Inr w
      else if row = list_row w then
        (if n \<le> 1 then Inr (w\<lparr>page_list := [], list_row := - 1\<rparr>)
         else
           let nxt = (if row + 1 < n then row + 1 else row - 1) in
           case stack_setCurrentIndex nxt (w\<lparr>list_row := nxt\<rparr>) of
             Inl e \<Rightarrow> Inl e
           | Inr w1 \<Rightarrow>
               Inr (w1\<lparr>page_list := remove_nth (nat row) (page_list w1),
                       list_row := (if row + 1 < n then row else row - 1)\<rparr>))
      else
        Inr (w\<lparr>page_list := remove_nth (nat row) (page_list w),
               list_row := (if row < list_row w then list_row w - 1 else list_row w)\<rparr>))"

text \<open>
  \<^verbatim>\<open>PagesPanel.add_page\<close>. \<open>None\<close> stands for a call without a title (the button's
  click passes \<^verbatim>\<open>False\<close>, which \<^verbatim>\<open>title or ...\<close> treats alike); an empty title is
  falsy too.
\<close>

definition add_page :: "string option \<Rightarrow> window \<Rightarrow> pyexn + window" where
  "add_page title w =
     (let index = length (page_list w) + 1;
          name = (case title of
                    None \<Rightarrow> ''Page '' @ str_nat index
                  | Some t \<Rightarrow> if t = [] then ''Page '' @ str_nat index else t);
          w1 = w\<lparr>page_list := page_list w @ [name]\<rparr>
      in case stack_addWidget new_editor w1 of
           Inl e \<Rightarrow> Inl e
         | Inr w2 \<Rightarrow> list_setCurrentRow (int (length (page_list w2)) - 1) w2)"

text \<open>\<^verbatim>\<open>PagesPanel.delete_page\<close>.\<close>

definition delete_page :: "window \<Rightarrow> pyexn + window" where
  "delete_page w =
     (let row = list_row w in
      if row < 0 \<or> length (page_list w) \<le> 1 then Inr w
      else
        case list_takeItem row w of
          Inl e \<Rightarrow> Inl e
        | Inr w1 \<Rightarrow>
            (case stack_removeWidget row w1 of
               Inl e \<Rightarrow> Inl e
             | Inr w2 \<Rightarrow> if row > 0 then list_setCurrentRow (row - 1) w2 else Inr w2))"

text \<open>
  \<^verbatim>\<open>MainWindow.__init__\<close>, as far as pages and preview go: the panel is created empty,
  one page is added, then the stack's signal is connected and the preview gets its
  greeting.
\<close>

definition empty_window :: "language_strings \<Rightarrow> window" where
  "empty_window lang =
     \<lparr>page_list = [], list_row = - 1, page_stack = [], stack_index = - 1,
      preview_connected = False, preview = Literal [], notifications = [], language = lang\<rparr>"

definition init_window :: "language_strings \<Rightarrow> pyexn + window" where
  "init_window lang =
     (case add_page None (empty_window lang) of
        Inl e \<Rightarrow> Inl e
      | Inr w \<Rightarrow>
          Inr (w\<lparr>preview_connected := True,
                 preview := Literal ''<h3>Live Preview</h3><p>Insert LaTeX, graphs, or images.</p>''\<rparr>))"

subsection \<open>Formula insertion\<close>

text \<open>
  \<^verbatim>\<open>LatexDialog\<close>: the input field and the dialog's own preview label. The renderer
  (\<^verbatim>\<open>render_latex_static\<close>, which calls the plotting library) is a parameter: it
  returns an image or raises. Every change of the input runs the dialog's
  \<^verbatim>\<open>_update_preview\<close>, which writes to the label only (the pixmap is kept as rendered;
  its fit to the label's size is not represented).
\<close>

datatype label = LabelText string | LabelPixmap qimage

record latex_dialog =
  input_field :: string
  preview_label :: label
  ld_language :: language_strings

definition latex_dialog_update_preview ::
  "(string \<Rightarrow> pyexn + qimage) \<Rightarrow> latex_dialog \<Rightarrow> latex_dialog" where
  "latex_dialog_update_preview render d =
     (let t = strip (input_field d) in
      if t = [] then d\<lparr>preview_label := LabelText ''Preview''\<rparr>
      else case render t of
             Inl e \<Rightarrow> d\<lparr>preview_label := LabelText (lang_latex_error (ld_language d))\<rparr>
           | Inr img \<Rightarrow> d\<lparr>preview_label := LabelPixmap img\<rparr>)"

definition new_latex_dialog ::
  "(string \<Rightarrow> pyexn + qimage) \<Rightarrow> language_strings \<Rightarrow> latex_dialog" where
  "new_latex_dialog render lang =
     latex_dialog_update_preview render
       \<lparr>input_field = [], preview_label = LabelText [], ld_language = lang\<rparr>"

definition latex_dialog_edit ::
  "(string \<Rightarrow> pyexn + qimage) \<Rightarrow> latex_dialog \<Rightarrow> string \<Rightarrow> latex_dialog" where
  "latex_dialog_edit render d t = latex_dialog_update_preview render (d\<lparr>input_field := t\<rparr>)"

definition get_latex :: "latex_dialog \<Rightarrow> string" where
  "get_latex d = strip (input_field d)"

text \<open>
  \<^verbatim>\<open>MainWindow.insert_latex\<close> of \<^verbatim>\<open>bestmath.py\<close>. The modal dialog runs inside the
  call: \<open>edits\<close> are the successive contents the user gives the input field, and
  \<open>accepted\<close> says whether the dialog ended with Insert.
\<close>

definition insert_latex ::
  "(string \<Rightarrow> pyexn + qimage) \<Rightarrow> string list \<Rightarrow> bool \<Rightarrow> window \<Rightarrow> pyexn + window" where
  "insert_latex render edits accepted w =
     (let dialog = foldl (latex_dialog_edit render) (new_latex_dialog render (language w)) edits in
      if \<not> accepted then Inr w
      else
        let latex = get_latex dialog in
        if latex = [] then Inr w
        else
          case render latex of
            Inl e \<Rightarrow>
              Inr (warning (lang_insert_latex (language w)) (lang_latex_error (language w)) w)
          | Inr img \<Rightarrow>
              (case current_editor w of
                 Inl e \<Rightarrow> Inl e
               | Inr ed \<Rightarrow> update_preview (set_current_editor (insertImage img ed) w)))"

text \<open>
  The single-editor window of \<^verbatim>\<open>sourcecode.py\<close> and its \<^verbatim>\<open>insert_latex\<close>, which asks
  for the formula with a plain input dialog returning the text and whether it was
  confirmed.
\<close>

record simple_window =
  sw_editor :: editor
  sw_preview :: html
  sw_notifications :: "(string \<times> string) list"
  sw_language :: language_strings

definition sw_update_preview :: "simple_window \<Rightarrow> simple_window" where
  "sw_update_preview w = w\<lparr>sw_preview := toHtml (sw_editor w)\<rparr>"

definition sw_insert_latex ::
  "(string \<Rightarrow> pyexn + qimage) \<Rightarrow> string \<Rightarrow> bool \<Rightarrow> simple_window \<Rightarrow> simple_window" where
  "sw_insert_latex render latex ok w =
     (if \<not> ok \<or> strip latex = [] then w
      else
        case render (strip latex) of
          Inl e \<Rightarrow>
            w\<lparr>sw_notifications := sw_notifications w
                 @ [(lang_insert_latex (sw_language w), lang_latex_error (sw_language w))]\<rparr>
        | Inr img \<Rightarrow> sw_update_preview (w\<lparr>sw_editor := insertImage img (sw_editor w)\<rparr>))"

subsection \<open>The graph dialog\<close>

text \<open>
  Numbers of the plotting library: a finite value, an infinity or not-a-number. Finite
  values are exact reals.
\<close>

datatype pyfloat = Finite real | PosInf | NegInf | NaN

text \<open>
  What a name of the evaluation environment can be bound to: the array of x-values, the
  numeric library as a whole, or one of its functions.
\<close>

datatype pyval = Array "pyfloat list" | Module string | Ufunc string

datatype artist =
    Line "real list" "pyfloat list" string
  | FillBetween "real list" "pyfloat list" string
  | Scatter "pyfloat list" "pyfloat list" string

record graph_dialog =
  function_input :: string
  points_input :: string
  color_box :: string
  fill_check :: bool
  axis :: "artist list"
  gd_notifications :: "(string \<times> string) list"
  gd_language :: language_strings

definition new_graph_dialog :: "language_strings \<Rightarrow> graph_dialog" where
  "new_graph_dialog lang =
     \<lparr>function_input = [], points_input = [], color_box = ''blue'', fill_check = False,
      axis = [], gd_notifications = [], gd_language = lang\<rparr>"

text \<open>\<^verbatim>\<open>np.linspace(a, b, n)\<close>: \<open>n\<close> values from \<open>a\<close> to \<open>b\<close>, both ends included.\<close>

definition linspace :: "real \<Rightarrow> real \<Rightarrow> nat \<Rightarrow> real list" where
  "linspace a b n = map (\<lambda>i. a + real i * ((b - a) / real (n - 1))) [0..<n]"

text \<open>The dictionary \<^verbatim>\<open>add_function\<close> passes to \<^verbatim>\<open>eval\<close> as the global names.\<close>

definition eval_globals :: "real list \<Rightarrow> (string \<times> pyval) list" where
  "eval_globals x =
     [(''x'', Array (map Finite x)), (''np'', Module ''numpy''), (''sin'', Ufunc ''sin''),
      (''cos'', Ufunc ''cos''), (''tan'', Ufunc ''tan''), (''sqrt'', Ufunc ''sqrt''),
      (''log'', Ufunc ''log''), (''exp'', Ufunc ''exp''), (''abs'', Ufunc ''abs'')]"

text \<open>
  \<^verbatim>\<open>GraphDialog.add_function\<close>. The interpreter's \<^verbatim>\<open>eval\<close> is the parameter \<open>ev\<close>: it
  gets the expression and the global names and returns a value or raises. Plotting
  raises (outside the \<^verbatim>\<open>try\<close>) when the value is not an array as long as \<open>x\<close>.
\<close>

definition add_function ::
  "(string \<Rightarrow> (string \<times> pyval) list \<Rightarrow> pyexn + pyval) \<Rightarrow> graph_dialog \<Rightarrow> pyexn + graph_dialog" where
  "add_function ev d =
     (let expr = strip (function_input d) in
      if expr = [] then Inr d
      else
        let x = linspace (- 10) 10 400 in
        case ev expr (eval_globals x) of
          Inl e \<Rightarrow>
            Inr (d\<lparr>gd_notifications := gd_notifications d
                      @ [(lang_diagram_title (gd_language d), ''Invalid function expression.'')]\<rparr>)
        | Inr (Array y) \<Rightarrow>
            if length y = length x
            then Inr (d\<lparr>axis := axis d @ [Line x y (color_box d)]
                           @ (if fill_check d then [FillBetween x y (color_box d)] else [])\<rparr>)
            else Inl ValueError
        | Inr _ \<Rightarrow> Inl ValueError)"

text \<open>\<^verbatim>\<open>str.split(sep)\<close> for a one-character separator, and \<^verbatim>\<open>split(sep, maxsplit=1)\<close>.\<close>

fun split_on :: "char \<Rightarrow> string \<Rightarrow> string list" where
  "split_on c [] = [[]]"
| "split_on c (x # xs) =
     (if x = c then [] # split_on c xs
      else (case split_on c xs of [] \<Rightarrow> [[x]] | p # ps \<Rightarrow> (x # p) # ps))"

definition split_once :: "char \<Rightarrow> string \<Rightarrow> string list" where
  "split_once c s =
     (case dropWhile (\<lambda>x. x \<noteq> c) s of
        [] \<Rightarrow> [s]
      | _ # r \<Rightarrow> [takeWhile (\<lambda>x. x \<noteq> c) s, r])"

definition drop_parens :: "string \<Rightarrow> string" where
  "drop_parens s = filter (\<lambda>c. c \<noteq> CHR ''('' \<and> c \<noteq> CHR '')'') s"

text \<open>
  The loop of \<^verbatim>\<open>add_points\<close> over the pairs. \<^verbatim>\<open>float\<close> is the parameter \<open>fl\<close>
  (\<open>None\<close> when it raises); unpacking anything but two parts raises as well.
\<close>

fun parse_pairs :: "(string \<Rightarrow> pyfloat option) \<Rightarrow> string list \<Rightarrow> pyexn + (pyfloat \<times> pyfloat) list" where
  "parse_pairs fl [] = Inr []"
| "parse_pairs fl (pair # rest) =
     (let cleaned = strip (drop_parens pair) in
      if cleaned = [] then parse_pairs fl rest
      else
        case map strip (split_once (CHR '','') cleaned) of
          [x_str, y_str] \<Rightarrow>
            (case fl x_str of
               None \<Rightarrow> Inl ValueError
             | Some x \<Rightarrow>
                 (case fl y_str of
                    None \<Rightarrow> Inl ValueError
                  | Some y \<Rightarrow>
                      (case parse_pairs fl rest of
                         Inl e \<Rightarrow> Inl e
                       | Inr ps \<Rightarrow> Inr ((x, y) # ps))))
        | _ \<Rightarrow> Inl ValueError)"

text \<open>The body of the \<^verbatim>\<open>try\<close> in \<^verbatim>\<open>add_points\<close>, for a stripped, non-empty text.\<close>

definition point_pairs :: "string \<Rightarrow> string list" where
  "point_pairs t =
     (let pairs = filter (\<lambda>p. p \<noteq> []) (map strip (split_on (CHR '';'') (drop_parens t)))
      in if pairs = [] then filter (\<lambda>p. p \<noteq> []) (map strip (split_on (CHR '')'') t))
         else pairs)"

definition parse_points :: "(string \<Rightarrow> pyfloat option) \<Rightarrow> string \<Rightarrow> pyexn + (pyfloat \<times> pyfloat) list" where
  "parse_points fl t = parse_pairs fl (point_pairs t)"

text \<open>\<^verbatim>\<open>GraphDialog.add_points\<close>.\<close>

definition add_points :: "(string \<Rightarrow> pyfloat option) \<Rightarrow> graph_dialog \<Rightarrow> graph_dialog" where
  "add_points fl d =
     (let t = strip (points_input d) in
      if t = [] then d
      else
        case parse_points fl t of
          Inl e \<Rightarrow>
            d\<lparr>gd_notifications := gd_notifications d
                 @ [(lang_diagram_title (gd_language d), ''Invalid points format.'')]\<rparr>
        | Inr points \<Rightarrow>
            if points = [] then d
            else d\<lparr>axis := axis d @ [Scatter (map fst points) (map snd points) (color_box d)]\<rparr>)"

definition clear_graph :: "graph_dialog \<Rightarrow> graph_dialog" where
  "clear_graph d = d\<lparr>axis := []\<rparr>"

subsection \<open>Reading numbers\<close>

text \<open>
  \<^verbatim>\<open>int(text)\<close> and \<^verbatim>\<open>float(text)\<close> on ASCII input, after the language reference:
  surrounding white space, an optional sign, and groups of digits in which single
  underscores may stand between digits. \<open>None\<close> is \<^verbatim>\<open>ValueError\<close>. A finite value is
  the exact decimal the text denotes.
\<close>

definition is_digit :: "char \<Rightarrow> bool" where
  "is_digit c = (48 \<le> (of_char c :: nat) \<and> (of_char c :: nat) \<le> 57)"

fun digit_part :: "string \<Rightarrow> bool" where
  "digit_part [] = False"
| "digit_part [c] = is_digit c"
| "digit_part (c # d # cs) =
     (is_digit c \<and> (if d = CHR ''_'' then digit_part cs else digit_part (d # cs)))"

definition digits_value :: "string \<Rightarrow> nat" where
  "digits_value s = foldl (\<lambda>a c. 10 * a + (of_char c - 48)) 0 (filter is_digit s)"

definition split_sign :: "string \<Rightarrow> bool \<times> string" where
  "split_sign s =
     (case s of
        [] \<Rightarrow> (False, [])
      | c # r \<Rightarrow> if c = CHR ''-'' then (True, r) else if c = CHR ''+'' then (False, r) else (False, s))"

definition py_int :: "string \<Rightarrow> int option" where
  "py_int s =
     (let (neg, r) = split_sign (strip s) in
      if digit_part r then Some (if neg then - int (digits_value r) else int (digits_value r))
      else None)"

fun ci_match :: "string \<Rightarrow> string \<Rightarrow> bool" where
  "ci_match [] [] = True"
| "ci_match (p # ps) (c # cs) =
     ((c = p \<or> (of_char c :: nat) + 32 = of_char p) \<and> ci_match ps cs)"
| "ci_match _ _ = False"

definition is_exp_mark :: "char \<Rightarrow> bool" where
  "is_exp_mark c = (c = CHR ''e'' \<or> c = CHR ''E'')"

definition mantissa :: "string \<Rightarrow> real option" where
  "mantissa m =
     (let ip = takeWhile (\<lambda>c. c \<noteq> CHR ''.'') m in
      case dropWhile (\<lambda>c. c \<noteq> CHR ''.'') m of
        [] \<Rightarrow> if digit_part ip then Some (real (digits_value ip)) else None
      | _ # fp \<Rightarrow>
          if (ip = [] \<and> digit_part fp) \<or> (digit_part ip \<and> (fp = [] \<or> digit_part fp))
          then Some (real (digits_value ip)
                     + real (digits_value fp) / 10 ^ length (filter is_digit fp))
          else None)"

definition exponent :: "string \<Rightarrow> int option" where
  "exponent e =
     (let (neg, r) = split_sign e in
      if digit_part r then Some (if neg then - int (digits_value r) else int (digits_value r))
      else None)"

definition float_number :: "string \<Rightarrow> real option" where
  "float_number r =
     (case mantissa (takeWhile (\<lambda>c. \<not> is_exp_mark c) r) of
        None \<Rightarrow> None
      | Some v \<Rightarrow>
          (case dropWhile (\<lambda>c. \<not> is_exp_mark c) r of
             [] \<Rightarrow> Some v
           | _ # e \<Rightarrow>
               (case exponent e of
                  None \<Rightarrow> None
                | Some k \<Rightarrow> Some (if 0 \<le> k then v * 10 ^ nat k else v / 10 ^ nat (- k)))))"

definition py_float :: "string \<Rightarrow> pyfloat option" where
  "py_float s =
     (let (neg, r) = split_sign (strip s) in
      if ci_match ''inf'' r \<or> ci_match ''infinity'' r then Some (if neg then NegInf else PosInf)
      else if ci_match ''nan'' r then Some NaN
      else case float_number r of
             None \<Rightarrow> None
           | Some v \<Rightarrow> Some (Finite (if neg then - v else v)))"

subsection \<open>Images: settings and scaling\<close>

text \<open>\<^verbatim>\<open>ImageInsertDialog.get_settings\<close>, from the texts of the three inputs.\<close>

definition get_settings :: "string \<Rightarrow> string \<Rightarrow> string \<Rightarrow> int option \<times> int option \<times> alignment" where
  "get_settings width_text height_text align_text =
     (py_int width_text, py_int height_text,
      if align_text = ''Center'' then AlignCenter
      else if align_text = ''Right'' then AlignRight
      else AlignLeft)"

text \<open>
  The toolkit's image operations, on sizes. A null image has no pixels; scaling to a
  size that is not positive gives a null image. \<^verbatim>\<open>scaledToWidth\<close> multiplies both sides
  by \<open>w / width\<close> and rounds each to the nearest integer (halves upwards), and gives a
  null image when a side rounds to zero; \<^verbatim>\<open>scaledToHeight\<close> likewise.
\<close>

definition null_image :: qimage where
  "null_image = \<lparr>img_width = 0, img_height = 0, img_source = []\<rparr>"

definition isNull :: "qimage \<Rightarrow> bool" where
  "isNull im = (img_width im \<le> 0 \<or> img_height im \<le> 0)"

definition round_div :: "int \<Rightarrow> int \<Rightarrow> int" where
  "round_div a b = (2 * a + b) div (2 * b)"

definition scaled :: "int \<Rightarrow> int \<Rightarrow> qimage \<Rightarrow> qimage" where
  "scaled w h im =
     (if isNull im \<or> w \<le> 0 \<or> h \<le> 0 then null_image
      else im\<lparr>img_width := w, img_height := h\<rparr>)"

definition scaledToWidth :: "int \<Rightarrow> qimage \<Rightarrow> qimage" where
  "scaledToWidth w im =
     (if isNull im \<or> w \<le> 0 then null_image
      else
        let wd = round_div (w * img_width im) (img_width im);
            hd = round_div (w * img_height im) (img_width im)
        in if wd = 0 \<or> hd = 0 then null_image else im\<lparr>img_width := wd, img_height := hd\<rparr>)"

definition scaledToHeight :: "int \<Rightarrow> qimage \<Rightarrow> qimage" where
  "scaledToHeight h im =
     (if isNull im \<or> h \<le> 0 then null_image
      else
        let wd = round_div (h * img_width im) (img_height im);
            hd = round_div (h * img_height im) (img_height im)
        in if wd = 0 \<or> hd = 0 then null_image else im\<lparr>img_width := wd, img_height := hd\<rparr>)"

text \<open>
  The \<^verbatim>\<open>if width and height: ... elif width: ... elif height: ...\<close> of
  \<^verbatim>\<open>MainWindow.insert_image\<close>. A size that is absent or zero is falsy.
\<close>

definition truthy :: "int option \<Rightarrow> bool" where
  "truthy v = (case v of None \<Rightarrow> False | Some n \<Rightarrow> n \<noteq> 0)"

definition int_of :: "int option \<Rightarrow> int" where
  "int_of v = (case v of None \<Rightarrow> 0 | Some n \<Rightarrow> n)"

definition resize :: "int option \<Rightarrow> int option \<Rightarrow> qimage \<Rightarrow> qimage" where
  "resize width height im =
     (if truthy width \<and> truthy height then scaled (int_of width) (int_of height) im
      else if truthy width then scaledToWidth (int_of width) im
      else if truthy height then scaledToHeight (int_of height) im
      else im)"

text \<open>
  \<^verbatim>\<open>MainWindow.insert_image\<close>. \<open>load\<close> is \<^verbatim>\<open>QImage(path)\<close> (a null image when the file
  cannot be decoded); \<open>path\<close> is what the file dialog returned, \<open>accepted\<close> how the
  settings dialog ended, and the three texts are its inputs.
\<close>

definition insert_image ::
  "(string \<Rightarrow> qimage) \<Rightarrow> string \<Rightarrow> bool \<Rightarrow> string \<Rightarrow> string \<Rightarrow> string \<Rightarrow> window
     \<Rightarrow> pyexn + window" where
  "insert_image load path accepted width_text height_text align_text w =
     (if path = [] then Inr w
      else if \<not> accepted then Inr w
      else
        let (width, height, alignment) = get_settings width_text height_text align_text in
        if isNull (load path)
        then Inr (warning (lang_insert_image (language w)) ''Unable to load image.'' w)
        else
          (case current_editor w of
             Inl e \<Rightarrow> Inl e
           | Inr ed \<Rightarrow>
               update_preview
                 (set_current_editor
                    (insertImage (resize width height (load path))
                       (setBlockAlignment alignment ed)) w)))"

subsection \<open>Graph insertion and whole sessions\<close>

datatype graph_event =
    SetFunction string | SetPoints string | SetColor string | SetFill bool
  | ClickAddFunction | ClickAddPoints | ClickClear

text \<open>What the user can do inside the graph dialog while it is open.\<close>

definition graph_step ::
  "(string \<Rightarrow> (string \<times> pyval) list \<Rightarrow> pyexn + pyval) \<Rightarrow> (string \<Rightarrow> pyfloat option)
     \<Rightarrow> graph_event \<Rightarrow> graph_dialog \<Rightarrow> pyexn + graph_dialog" where
  "graph_step ev fl e d =
     (case e of
        SetFunction t \<Rightarrow> Inr (d\<lparr>function_input := t\<rparr>)
      | SetPoints t \<Rightarrow> Inr (d\<lparr>points_input := t\<rparr>)
      | SetColor c \<Rightarrow> Inr (d\<lparr>color_box := c\<rparr>)
      | SetFill b \<Rightarrow> Inr (d\<lparr>fill_check := b\<rparr>)
      | ClickAddFunction \<Rightarrow> add_function ev d
      | ClickAddPoints \<Rightarrow> Inr (add_points fl d)
      | ClickClear \<Rightarrow> Inr (clear_graph d))"

fun graph_session ::
  "(string \<Rightarrow> (string \<times> pyval) list \<Rightarrow> pyexn + pyval) \<Rightarrow> (string \<Rightarrow> pyfloat option)
     \<Rightarrow> graph_event list \<Rightarrow> graph_dialog \<Rightarrow> pyexn + graph_dialog" where
  "graph_session ev fl [] d = Inr d"
| "graph_session ev fl (e # es) d =
     (case graph_step ev fl e d of
        Inl x \<Rightarrow> Inl x
      | Inr d' \<Rightarrow> graph_session ev fl es d')"

text \<open>
  \<^verbatim>\<open>MainWindow.insert_diagram\<close> of \<^verbatim>\<open>bestmath.py\<close>: the dialog runs its session, and only
  when it is accepted the canvas is turned into an image (\<open>canvas\<close> stands for
  \<^verbatim>\<open>render_to_image\<close>) and inserted.
\<close>

definition insert_diagram ::
  "(string \<Rightarrow> (string \<times> pyval) list \<Rightarrow> pyexn + pyval) \<Rightarrow> (string \<Rightarrow> pyfloat option)
     \<Rightarrow> (graph_dialog \<Rightarrow> qimage) \<Rightarrow> graph_event list \<Rightarrow> bool \<Rightarrow> window \<Rightarrow> pyexn + window" where
  "insert_diagram ev fl canvas events accepted w =
     (case graph_session ev fl events (new_graph_dialog (language w)) of
        Inl x \<Rightarrow> Inl x
      | Inr dialog \<Rightarrow>
          if accepted then
            (case current_editor w of
               Inl e \<Rightarrow> Inl e
             | Inr ed \<Rightarrow> update_preview (set_current_editor (insertImage (canvas dialog) ed) w))
          else Inr w)"

text \<open>
  The collaborators outside the repository, and the user's actions on the main window.
  \<open>SelectRow\<close> is a click on a row of the page list; \<open>UserEdit\<close> is any typing or cursor
  movement in the active editor (no signal of the editor is connected to anything).
  The resets of the whole document (\<^verbatim>\<open>new_document\<close>, \<^verbatim>\<open>open_document\<close>) are not
  among the actions.
\<close>

record externals =
  ext_render :: "string \<Rightarrow> pyexn + qimage"
  ext_eval :: "string \<Rightarrow> (string \<times> pyval) list \<Rightarrow> pyexn + pyval"
  ext_float :: "string \<Rightarrow> pyfloat option"
  ext_canvas :: "graph_dialog \<Rightarrow> qimage"
  ext_load :: "string \<Rightarrow> qimage"

datatype event =
    AddPage "string option"
  | DeletePage
  | SelectRow nat
  | UserEdit editor
  | InsertLatex "string list" bool
  | InsertDiagram "graph_event list" bool
  | InsertImage string bool string string string

definition step :: "externals \<Rightarrow> event \<Rightarrow> window \<Rightarrow> pyexn + window" where
  "step x e w =
     (case e of
        AddPage title \<Rightarrow> add_page title w
      | DeletePage \<Rightarrow> delete_page w
      | SelectRow r \<Rightarrow> if r < length (page_list w) then list_setCurrentRow (int r) w else Inr w
      | UserEdit ed \<Rightarrow> Inr (set_current_editor ed w)
      | InsertLatex edits accepted \<Rightarrow> insert_latex (ext_render x) edits accepted w
      | InsertDiagram events accepted \<Rightarrow>
          insert_diagram (ext_eval x) (ext_float x) (ext_canvas x) events accepted w
      | InsertImage path accepted wt ht al \<Rightarrow> insert_image (ext_load x) path accepted wt ht al w)"

fun run :: "externals \<Rightarrow> event list \<Rightarrow> window \<Rightarrow> pyexn + window" where
  "run x [] w = Inr w"
| "run x (e # es) w = (case step x e w of Inl err \<Rightarrow> Inl err | Inr w' \<Rightarrow> run x es w')"

definition session :: "externals \<Rightarrow> language_strings \<Rightarrow> event list \<Rightarrow> pyexn + window" where
  "session x lang es = (case init_window lang of Inl err \<Rightarrow> Inl err | Inr w \<Rightarrow> run x es w)"

text \<open>
  What holds between operations: list and stack have the same pages, at least one, and
  the same valid current row; the stack's signal is connected.
\<close>

definition page_inv :: "window \<Rightarrow> bool" where
  "page_inv w =
     (1 \<le> length (page_list w) \<and> length (page_stack w) = length (page_list w)
      \<and> 0 \<le> list_row w \<and> list_row w < int (length (page_list w))
      \<and> stack_index w = list_row w \<and> preview_connected w)"

definition page_event :: "event \<Rightarrow> bool" where
  "page_event e =
     (case e of AddPage t \<Rightarrow> True | DeletePage \<Rightarrow> True | SelectRow r \<Rightarrow> True | _ \<Rightarrow> False)"

definition page_names :: "pyexn + window \<Rightarrow> string list" where
  "page_names r = (case r of Inl e \<Rightarrow> [] | Inr w \<Rightarrow> page_list w)"

subsection \<open>Sample collaborators\<close>

text \<open>
  Concrete stand-ins for the collaborators, used where a statement is evaluated on an
  input: a renderer that rejects unbalanced braces, an evaluator that knows the names of
  its environment and the expression \<^verbatim>\<open>sin(x)\<close>, a canvas of fixed size and a loader
  that knows one file.
\<close>

definition balanced :: "string \<Rightarrow> bool" where
  "balanced s = (length (filter (\<lambda>c. c = CHR ''{'') s) = length (filter (\<lambda>c. c = CHR ''}'') s))"

definition sample_render :: "string \<Rightarrow> pyexn + qimage" where
  "sample_render s =
     (if balanced s then Inr \<lparr>img_width = 10 * int (length s), img_height = 20, img_source = s\<rparr>
      else Inl ValueError)"

definition sin_float :: "pyfloat \<Rightarrow> pyfloat" where
  "sin_float v = (case v of Finite r \<Rightarrow> Finite (sin r) | _ \<Rightarrow> NaN)"

definition sample_eval :: "string \<Rightarrow> (string \<times> pyval) list \<Rightarrow> pyexn + pyval" where
  "sample_eval expr env =
     (if expr = ''sin(x)'' then
        (case map_of env ''x'' of
           Some (Array xs) \<Rightarrow> Inr (Array (map sin_float xs))
         | _ \<Rightarrow> Inl NameError)
      else case map_of env expr of Some v \<Rightarrow> Inr v | None \<Rightarrow> Inl NameError)"

definition sample_canvas :: "graph_dialog \<Rightarrow> qimage" where
  "sample_canvas d = \<lparr>img_width = 500, img_height = 400, img_source = ''graph''\<rparr>"

definition sample_load :: "string \<Rightarrow> qimage" where
  "sample_load path =
     (if path = ''photo.png'' then \<lparr>img_width = 200, img_height = 400, img_source = path\<rparr>
      else null_image)"

definition sample_externals :: externals where
  "sample_externals =
     \<lparr>ext_render = sample_render, ext_eval = sample_eval, ext_float = py_float,
      ext_canvas = sample_canvas, ext_load = sample_load\<rparr>"


definition start_window :: window where
  "start_window =
     \<lparr>page_list = [''Page 1''], list_row = 0, page_stack = [new_editor], stack_index = 0,
      preview_connected = True,
      preview = Literal ''<h3>Live Preview</h3><p>Insert LaTeX, graphs, or images.</p>'',
      notifications = [], language = english\<rparr>"


subsection \<open>Notions used in the statements about the graph dialog\<close>






section \<open>Properties\<close>

subsection \<open>Readers and splitting on examples\<close>





subsection \<open>Pages\<close>

lemmas page_defs = add_page_def stack_addWidget_def list_setCurrentRow_def
  stack_setCurrentIndex_def currentChanged_def update_preview_def current_editor_def
  delete_page_def list_takeItem_def stack_removeWidget_def remove_nth_def

lemmas eval_defs = session_def init_window_def empty_window_def step_def page_defs Let_def
  str_nat.simps digit_char_def new_editor_def toHtml_def

lemma add_page_inv:
  assumes "page_inv w"
  shows "\<exists>w'. add_page t w = Inr w' \<and> page_inv w'
     \<and> page_list w' = page_list w @ [case t of None \<Rightarrow> ''Page '' @ str_nat (length (page_list w) + 1)
            | Some n \<Rightarrow> if n = [] then ''Page '' @ str_nat (length (page_list w) + 1) else n]
     \<and> page_stack w' = page_stack w @ [new_editor]
     \<and> list_row w' = int (length (page_list w))
     \<and> preview w' = toHtml new_editor
     \<and> notifications w' = notifications w \<and> language w' = language w"
  using assms
  by (auto simp: page_inv_def page_defs Let_def nth_append split: option.splits)

lemma init_window_inv:
  "\<exists>w. init_window lang = Inr w \<and> page_inv w \<and> page_list w = [''Page 1'']
     \<and> page_stack w = [new_editor] \<and> language w = lang"
  by (simp add: init_window_def empty_window_def page_inv_def page_defs Let_def str_nat.simps digit_char_def)

lemma delete_page_single: "length (page_list w) \<le> 1 \<Longrightarrow> delete_page w = Inr w"
  by (simp add: delete_page_def)

lemma delete_page_inv:
  assumes "page_inv w" "1 < length (page_list w)"
  shows "\<exists>w'. delete_page w = Inr w' \<and> page_inv w'
     \<and> page_list w' = remove_nth (nat (list_row w)) (page_list w)
     \<and> page_stack w' = remove_nth (nat (list_row w)) (page_stack w)
     \<and> list_row w' = (if list_row w = 0 then 0 else list_row w - 1)
     \<and> preview w' = toHtml (page_stack w' ! nat (list_row w'))
     \<and> notifications w' = notifications w \<and> language w' = language w"
proof -
  from assms(1) obtain r where r: "list_row w = int r" "r < length (page_list w)"
    "stack_index w = int r" "length (page_stack w) = length (page_list w)" "preview_connected w"
    by (auto simp: page_inv_def intro: that [of "nat (list_row w)"])
  consider "r = 0" | "0 < r" "Suc r < length (page_list w)" | "0 < r" "Suc r = length (page_list w)"
    using r(2) by linarith
  then show ?thesis
  proof cases
    case 1
    with r assms(2) show ?thesis
      by (simp add: page_inv_def page_defs Let_def)
  next
    case 2
    with r assms(2) show ?thesis
      by (simp add: page_inv_def page_defs Let_def nth_append min_def)
  next
    case 3
    with r assms(2) show ?thesis
      by (simp add: page_inv_def page_defs Let_def nth_append min_def)
  qed
qed

lemma select_row_inv:
  assumes "page_inv w" "r < length (page_list w)"
  shows "\<exists>w'. list_setCurrentRow (int r) w = Inr w' \<and> page_inv w'
     \<and> page_list w' = page_list w \<and> page_stack w' = page_stack w \<and> list_row w' = int r
     \<and> preview w' = (if int r = list_row w then preview w else toHtml (page_stack w ! r))
     \<and> notifications w' = notifications w \<and> language w' = language w"
  using assms by (auto simp: page_inv_def page_defs Let_def)

lemma current_editor_inv:
  "page_inv w \<Longrightarrow> current_editor w = Inr (page_stack w ! nat (list_row w))"
  by (auto simp: page_inv_def current_editor_def)

lemma set_current_editor_inv: "page_inv w \<Longrightarrow> page_inv (set_current_editor ed w)"
  by (simp add: page_inv_def set_current_editor_def)

lemma insert_latex_inv:
  assumes "page_inv w" "insert_latex render edits accepted w = Inr w'"
  shows "page_inv w' \<and> length (page_list w') = length (page_list w)"
  using assms
  by (auto simp: insert_latex_def Let_def update_preview_def current_editor_def
      page_inv_def set_current_editor_def warning_def split: if_splits sum.splits)

lemma insert_diagram_inv:
  assumes "page_inv w" "insert_diagram ev fl canvas events accepted w = Inr w'"
  shows "page_inv w' \<and> length (page_list w') = length (page_list w)"
  using assms
  by (auto simp: insert_diagram_def Let_def update_preview_def current_editor_def
      page_inv_def set_current_editor_def split: if_splits sum.splits)

lemma insert_image_inv:
  assumes "page_inv w" "insert_image load path accepted wt ht al w = Inr w'"
  shows "page_inv w' \<and> length (page_list w') = length (page_list w)"
  using assms
  by (auto simp: insert_image_def Let_def update_preview_def current_editor_def
      page_inv_def set_current_editor_def warning_def split: if_splits sum.splits prod.splits)

lemma step_inv:
  assumes "page_inv w" "step x e w = Inr w'"
  shows "page_inv w'"
proof (cases e)
  case (AddPage t)
  with assms add_page_inv [OF assms(1), of t] show ?thesis by (auto simp: step_def)
next
  case DeletePage
  show ?thesis
  proof (cases "1 < length (page_list w)")
    case True
    with assms DeletePage delete_page_inv [OF assms(1) True] show ?thesis by (auto simp: step_def)
  next
    case False
    with assms DeletePage show ?thesis by (simp add: step_def delete_page_single)
  qed
next
  case (SelectRow r)
  with assms select_row_inv [OF assms(1), of r] show ?thesis
    by (auto simp: step_def split: if_splits)
next
  case (UserEdit ed)
  with assms show ?thesis by (auto simp: step_def set_current_editor_inv)
next
  case (InsertLatex edits accepted)
  with assms insert_latex_inv show ?thesis by (auto simp: step_def)
next
  case (InsertDiagram events accepted)
  with assms insert_diagram_inv show ?thesis by (auto simp: step_def)
next
  case (InsertImage path accepted wt ht al)
  with assms insert_image_inv show ?thesis by (auto simp: step_def)
qed

lemma run_inv: "page_inv w \<Longrightarrow> run x es w = Inr w' \<Longrightarrow> page_inv w'"
proof (induction es arbitrary: w)
  case Nil
  then show ?case by simp
next
  case (Cons e es)
  then show ?case by (auto split: sum.splits dest: step_inv)
qed

lemma session_inv: "session x lang es = Inr w \<Longrightarrow> page_inv w"
  using init_window_inv [of lang] by (auto simp: session_def dest: run_inv)

lemma page_step_total:
  assumes "page_inv w" "page_event e"
  shows "\<exists>w'. step x e w = Inr w'"
proof (cases e)
  case (AddPage t)
  with add_page_inv [OF assms(1), of t] show ?thesis by (auto simp: step_def)
next
  case DeletePage
  show ?thesis
  proof (cases "1 < length (page_list w)")
    case True
    with DeletePage delete_page_inv [OF assms(1) True] show ?thesis by (auto simp: step_def)
  next
    case False
    with DeletePage show ?thesis by (simp add: step_def delete_page_single)
  qed
next
  case (SelectRow r)
  with select_row_inv [OF assms(1), of r] show ?thesis
    by (auto simp: step_def split: if_splits)
qed (use assms(2) in \<open>simp_all add: page_event_def\<close>)

lemma page_run_total:
  "page_inv w \<Longrightarrow> list_all page_event es \<Longrightarrow> \<exists>w'. run x es w = Inr w'"
proof (induction es arbitrary: w)
  case Nil
  then show ?case by simp
next
  case (Cons e es)
  from Cons.prems obtain w1 where w1: "step x e w = Inr w1"
    using page_step_total [of w e x] by auto
  with Cons.prems have "page_inv w1" by (auto dest: step_inv)
  with Cons.IH [of w1] Cons.prems w1 show ?case by simp
qed


text \<open>
  C1. In every state the window reaches from its start by any actions, there is at
  least one page (and list and stack agree on their number); \<^verbatim>\<open>delete_page\<close> there is
  never an error, leaves at least one page, and changes nothing at all when exactly one
  page remains. Sequences of page actions (add, delete, select) always run through.
\<close>

theorem page_count_at_least_one:
  "(\<forall>w. session x lang es = Inr w \<longrightarrow>
      1 \<le> length (page_list w) \<and> length (page_stack w) = length (page_list w)
      \<and> (\<exists>w'. delete_page w = Inr w' \<and> 1 \<le> length (page_list w')
            \<and> (length (page_list w) = 1 \<longrightarrow> w' = w)))
   \<and> (list_all page_event es \<longrightarrow> (\<exists>w. session x lang es = Inr w))"
proof (intro conjI allI impI)
  fix w assume s: "session x lang es = Inr w"
  then have inv: "page_inv w" by (rule session_inv)
  then show "1 \<le> length (page_list w)" "length (page_stack w) = length (page_list w)"
    by (simp_all add: page_inv_def)
  show "\<exists>w'. delete_page w = Inr w' \<and> 1 \<le> length (page_list w')
            \<and> (length (page_list w) = 1 \<longrightarrow> w' = w)"
  proof (cases "1 < length (page_list w)")
    case True
    from delete_page_inv [OF inv True] obtain w' where
      "delete_page w = Inr w'" "page_inv w'" by blast
    with True show ?thesis by (auto simp: page_inv_def)
  next
    case False
    with inv have "delete_page w = Inr w" by (simp add: delete_page_single)
    with inv show ?thesis by (simp add: page_inv_def)
  qed
next
  assume "list_all page_event es"
  with init_window_inv [of lang] page_run_total [of _ es x]
  show "\<exists>w. session x lang es = Inr w" by (auto simp: session_def)
qed

theorem page_count_at_least_one_witness:
  "list_all page_event [AddPage None, DeletePage, DeletePage]
   \<and> (\<exists>w. session sample_externals english [AddPage None, DeletePage, DeletePage] = Inr w
          \<and> length (page_list w) = 1 \<and> delete_page w = Inr w)"
proof -
  let ?es = "[AddPage None, DeletePage, DeletePage]"
  have pe: "list_all page_event ?es" by (simp add: page_event_def)
  have run: "session sample_externals english ?es
    = Inr \<lparr>page_list = [''Page 1''], list_row = 0, page_stack = [new_editor], stack_index = 0,
        preview_connected = True, preview = toHtml new_editor, notifications = [],
        language = english\<rparr>" (is "_ = Inr ?w")
    by (simp add: eval_defs)
  have one: "length (page_list ?w) = 1" by simp
  from page_count_at_least_one [of sample_externals english ?es] run
  obtain w' where "delete_page ?w = Inr w'" "length (page_list ?w) = 1 \<longrightarrow> w' = ?w"
    by auto
  with one have "delete_page ?w = Inr ?w" by simp
  with pe run one show ?thesis by simp
qed

lemma remove_nth_before: "i < n \<Longrightarrow> n < length xs \<Longrightarrow> remove_nth n xs ! i = xs ! i"
  by (simp add: remove_nth_def nth_append)

lemma remove_nth_first: "1 < length xs \<Longrightarrow> remove_nth 0 xs = tl xs"
  by (simp add: remove_nth_def drop_Suc)

text \<open>
  C2. Deleting the active page of a collection with more than one page removes exactly
  that page from list and stack. When a page preceded it, that page becomes the active
  one; when none did, the first of the remaining pages is active. The result is a
  function of the state.
\<close>

theorem delete_active_page_selects_predecessor:
  assumes "page_inv w" "1 < length (page_list w)"
  shows "\<exists>w'. delete_page w = Inr w'
     \<and> page_list w' = remove_nth (nat (list_row w)) (page_list w)
     \<and> page_stack w' = remove_nth (nat (list_row w)) (page_stack w)
     \<and> stack_index w' = list_row w'
     \<and> (if 0 < list_row w
         then list_row w' = list_row w - 1
              \<and> current_editor w' = Inr (page_stack w ! (nat (list_row w) - 1))
              \<and> page_list w' ! nat (list_row w') = page_list w ! (nat (list_row w) - 1)
         else list_row w' = 0
              \<and> current_editor w' = Inr (hd (page_stack w'))
              \<and> page_stack w' = tl (page_stack w) \<and> page_list w' = tl (page_list w))"
proof -
  from delete_page_inv [OF assms] obtain w' where d: "delete_page w = Inr w'" "page_inv w'"
     "page_list w' = remove_nth (nat (list_row w)) (page_list w)"
     "page_stack w' = remove_nth (nat (list_row w)) (page_stack w)"
     "list_row w' = (if list_row w = 0 then 0 else list_row w - 1)"
    by blast
  from assms(1) have r: "0 \<le> list_row w" "nat (list_row w) < length (page_list w)"
    "length (page_stack w) = length (page_list w)"
    by (auto simp: page_inv_def)
  from d(2) have i: "stack_index w' = list_row w'" by (simp add: page_inv_def)
  show ?thesis
  proof (cases "0 < list_row w")
    case True
    with d r i current_editor_inv [OF d(2)] show ?thesis
      by (simp add: remove_nth_before nat_diff_distrib)
  next
    case False
    with r have z: "list_row w = 0" by simp
    from d(2) have "page_stack w' \<noteq> []" by (auto simp: page_inv_def)
    with z d r i assms(2) current_editor_inv [OF d(2)] show ?thesis
      by (simp add: remove_nth_first hd_conv_nth)
  qed
qed

theorem delete_active_page_selects_predecessor_witness:
  "page_inv \<lparr>page_list = [''A'', ''B'', ''C''], list_row = 1,
       page_stack = [new_editor\<lparr>buf := [Chr CHR ''a'']\<rparr>, new_editor\<lparr>buf := [Chr CHR ''b'']\<rparr>, new_editor\<lparr>buf := [Chr CHR ''c'']\<rparr>],
       stack_index = 1, preview_connected = True, preview = Literal [], notifications = [], language = english\<rparr>
  \<and> delete_page \<lparr>page_list = [''A'', ''B'', ''C''], list_row = 1,
       page_stack = [new_editor\<lparr>buf := [Chr CHR ''a'']\<rparr>, new_editor\<lparr>buf := [Chr CHR ''b'']\<rparr>, new_editor\<lparr>buf := [Chr CHR ''c'']\<rparr>],
       stack_index = 1, preview_connected = True, preview = Literal [], notifications = [], language = english\<rparr>
    = Inr \<lparr>page_list = [''A'', ''C''], list_row = 0,
       page_stack = [new_editor\<lparr>buf := [Chr CHR ''a'']\<rparr>, new_editor\<lparr>buf := [Chr CHR ''c'']\<rparr>],
       stack_index = 0, preview_connected = True, preview = toHtml (new_editor\<lparr>buf := [Chr CHR ''a'']\<rparr>), notifications = [], language = english\<rparr>"
  (is "page_inv ?w \<and> delete_page ?w = Inr ?v")
proof -
  have inv: "page_inv ?w" by (simp add: page_inv_def)
  have n: "1 < length (page_list ?w)" by simp
  from delete_active_page_selects_predecessor [OF inv n]
  obtain w' where "delete_page ?w = Inr w'" "list_row w' = 0" by auto
  moreover have "delete_page ?w = Inr ?v" by (simp add: page_defs Let_def)
  ultimately show ?thesis using inv by simp
qed

lemma digit_char_digit: "d < 10 \<Longrightarrow> is_digit (digit_char d) \<and> of_char (digit_char d) - 48 = d"
  by (simp add: digit_char_def is_digit_def)

lemma str_nat_digits: "list_all is_digit (str_nat n)"
proof (induction n rule: str_nat.induct)
  case (1 n)
  show ?case
  proof (cases "n < 10")
    case True
    then show ?thesis by (subst str_nat.simps) (simp add: digit_char_digit)
  next
    case False
    with 1 show ?thesis by (subst str_nat.simps) (simp add: digit_char_digit)
  qed
qed

lemma digits_value_snoc:
  "is_digit c \<Longrightarrow> digits_value (s @ [c]) = 10 * digits_value s + (of_char c - 48)"
  by (simp add: digits_value_def)

lemma digits_value_str_nat: "digits_value (str_nat n) = n"
proof (induction n rule: str_nat.induct)
  case (1 n)
  show ?case
  proof (cases "n < 10")
    case True
    then show ?thesis
      by (subst str_nat.simps) (simp add: digits_value_def digit_char_digit)
  next
    case False
    with 1 show ?thesis
      by (subst str_nat.simps) (simp add: digits_value_snoc digit_char_digit)
  qed
qed

text \<open>
  C5, as stated, fails: the start creates \<^verbatim>\<open>Page 1\<close>, two more pages follow, the active
  (third) page is deleted, and the next page created without a name is \<^verbatim>\<open>Page 3\<close>, not
  \<^verbatim>\<open>Page 4\<close>.
\<close>

theorem default_name_counterexample:
  "page_names (session sample_externals english
      [AddPage None, AddPage None, DeletePage, AddPage None])
   = [''Page 1'', ''Page 2'', ''Page 3'']"
  by (simp add: eval_defs page_names_def)

text \<open>
  C5, amended. A page created without a name (or with an empty one) is called
  \<^verbatim>\<open>Page N\<close>, where \<open>N\<close> in decimal is the number of pages present just before the
  creation plus one; the new page becomes the current row. Deleting a page leaves the
  names of the others as they are.
\<close>

theorem default_name_counts_pages:
  assumes "page_inv w"
  shows "\<exists>w'. add_page None w = Inr w' \<and> add_page (Some []) w = Inr w'
     \<and> page_list w' = page_list w @ [''Page '' @ str_nat (length (page_list w) + 1)]
     \<and> digits_value (str_nat (length (page_list w) + 1)) = length (page_list w) + 1
     \<and> list_row w' = int (length (page_list w))
     \<and> (1 < length (page_list w) \<longrightarrow>
          (\<exists>v. delete_page w = Inr v
             \<and> page_list v = remove_nth (nat (list_row w)) (page_list w)))"
proof -
  have same: "add_page (Some []) w = add_page None w" by (simp add: add_page_def)
  from add_page_inv [OF assms, of None] delete_page_inv [OF assms] show ?thesis
    by (auto simp: same digits_value_str_nat)
qed

theorem default_name_counts_pages_witness:
  "page_inv \<lparr>page_list = [''Page 1'', ''Page 3''], list_row = 1,
       page_stack = [new_editor, new_editor], stack_index = 1, preview_connected = True,
       preview = Literal [], notifications = [], language = english\<rparr>
   \<and> page_names (add_page None \<lparr>page_list = [''Page 1'', ''Page 3''], list_row = 1,
       page_stack = [new_editor, new_editor], stack_index = 1, preview_connected = True,
       preview = Literal [], notifications = [], language = english\<rparr>)
     = [''Page 1'', ''Page 3'', ''Page 3'']
   \<and> page_names (delete_page \<lparr>page_list = [''Page 1'', ''Page 3''], list_row = 1,
       page_stack = [new_editor, new_editor], stack_index = 1, preview_connected = True,
       preview = Literal [], notifications = [], language = english\<rparr>)
     = [''Page 1'']"
  (is "page_inv ?w \<and> _")
proof -
  have inv: "page_inv ?w" by (simp add: page_inv_def)
  have n: "1 < length (page_list ?w)" by simp
  from default_name_counts_pages [OF inv] obtain w' where
    "add_page None ?w = Inr w'"
    "page_list w' = page_list ?w @ [''Page '' @ str_nat (length (page_list ?w) + 1)]"
    by blast
  then have a: "page_names (add_page None ?w) = [''Page 1'', ''Page 3'', ''Page 3'']"
    by (simp add: page_names_def str_nat.simps digit_char_def)
  from default_name_counts_pages [OF inv] n obtain v where
    "delete_page ?w = Inr v" "page_list v = remove_nth (nat (list_row ?w)) (page_list ?w)"
    by blast
  then have d: "page_names (delete_page ?w) = [''Page 1'']"
    by (simp add: page_names_def remove_nth_def)
  from inv a d show ?thesis by simp
qed

subsection \<open>Insertion and preview\<close>

lemma input_field_update_preview [simp]:
  "input_field (latex_dialog_update_preview render d) = input_field d"
  by (simp add: latex_dialog_update_preview_def Let_def split: sum.splits)

lemma input_field_edits:
  "input_field (foldl (latex_dialog_edit render) d es) = (if es = [] then input_field d else last es)"
  by (induction es rule: rev_induct) (simp_all add: latex_dialog_edit_def)

lemma get_latex_edits:
  "get_latex (foldl (latex_dialog_edit render) (new_latex_dialog render lang) es)
   = (if es = [] then [] else strip (last es))"
  by (simp add: get_latex_def input_field_edits new_latex_dialog_def strip_def)






lemma start_window_init: "init_window english = Inr start_window"
  by (simp add: eval_defs start_window_def)



text \<open>
  C3. When the dialog is accepted with a non-blank formula and the renderer raises,
  \<^verbatim>\<open>insert_latex\<close> returns normally; the window differs from the one before only by
  the warning shown (page buffers, page list, active page and preview are the same), and
  it still satisfies what the operations need. The same holds for the single-editor
  variant of \<^verbatim>\<open>sourcecode.py\<close>.
\<close>

theorem failed_render_leaves_buffer:
  assumes "edits \<noteq> []" "strip (last edits) \<noteq> []" "render (strip (last edits)) = Inl e"
  shows "(\<exists>w'. insert_latex render edits True w = Inr w'
           \<and> w' = w\<lparr>notifications := notifications w
                     @ [(lang_insert_latex (language w), lang_latex_error (language w))]\<rparr>
           \<and> page_stack w' = page_stack w \<and> page_list w' = page_list w
           \<and> stack_index w' = stack_index w \<and> preview w' = preview w
           \<and> (page_inv w \<longrightarrow> page_inv w'))
       \<and> sw_insert_latex render (last edits) True v
           = v\<lparr>sw_notifications := sw_notifications v
                  @ [(lang_insert_latex (sw_language v), lang_latex_error (sw_language v))]\<rparr>
       \<and> sw_editor (sw_insert_latex render (last edits) True v) = sw_editor v
       \<and> sw_preview (sw_insert_latex render (last edits) True v) = sw_preview v"
  using assms
  by (simp add: insert_latex_def Let_def get_latex_edits warning_def sw_insert_latex_def
      page_inv_def)

theorem failed_render_leaves_buffer_witness:
  "sample_render (strip (last [''x^{2'', '' x^{2 ''])) = Inl ValueError
   \<and> insert_latex sample_render [''x^{2'', '' x^{2 ''] True start_window
       = Inr (start_window\<lparr>notifications :=
                [(''Insert LaTeX'', ''Unable to render LaTeX formula.'')]\<rparr>)
   \<and> page_stack start_window = [new_editor]"
proof -
  let ?edits = "[''x^{2'', '' x^{2 '']"
  have s: "strip '' x^{2 '' = ''x^{2''" by (simp add: strip_def is_space_def)
  have a: "?edits \<noteq> []" "strip (last ?edits) \<noteq> []" "sample_render (strip (last ?edits)) = Inl ValueError"
    by (simp_all add: s sample_render_def balanced_def)
  from failed_render_leaves_buffer
         [of ?edits sample_render ValueError start_window, OF a] a(3)
  show ?thesis by (simp add: start_window_def english_def)
qed














subsection \<open>Image scaling\<close>





subsection \<open>Point sets\<close>












subsection \<open>Function curves\<close>












end
